theory Spec2Isabelle
  imports Complex_Main
begin

section \<open>The dual-model translation service\<close>

text \<open>
  A shallow embedding of \<^verbatim>\<open>backend/src/services/translation.service.ts\<close> (class
  \<^verbatim>\<open>TranslationService\<close>) and of the \<^verbatim>\<open>translateVideo\<close> handler of
  \<^verbatim>\<open>backend/src/controllers/translation.controller.ts\<close>.

  Conventions of the model:
  \<^item> a JavaScript \<^verbatim>\<open>number\<close> is a rational. The only numbers that are compared are the
    quotient of two set sizes and the decimal literals 0.7, 0.8 and 0.9 and the confidence
    constants; rounding to a double is monotone and the quotient of two sizes below
    \<open>2\<^sup>4\<^sup>0\<close> that differs from 9/10 or 7/10 differs from it by more than one rounding
    step, so every comparison of the source has the outcome computed here. A duration or
    a mean, which the source rounds and never compares, is the exact quotient;
  \<^item> a JavaScript string is a \<open>string\<close> of ASCII characters: the case mappings change the
    letters A to Z and a to z only, and the white space of \<^verbatim>\<open>\s\<close> and of
    \<^verbatim>\<open>trim\<close> is tab, line feed, vertical tab, form feed, carriage return and space;
  \<^item> calls to the logger are left out: they return nothing and change nothing that the
    service reads.
\<close>

subsection \<open>Strings\<close>

definition is_ws :: "char \<Rightarrow> bool" where
  "is_ws c = (c \<in> set [CHR 0x09, CHR 0x0A, CHR 0x0B, CHR 0x0C, CHR 0x0D, CHR '' ''])"

text \<open>
  \<^verbatim>\<open>s.split(/\s+/)\<close>. The pattern never matches the empty string, so the result always
  has at least one element: the empty string gives \<^verbatim>\<open>[""]\<close>, every maximal run of
  white space separates two elements, and a string that starts or ends with white space
  has an empty first or last element.
\<close>

function split_ws :: "string \<Rightarrow> string list" where
  "split_ws [] = [[]]"
| "split_ws (c # cs) =
     (if is_ws c then [] # split_ws (dropWhile is_ws cs)
      else (case split_ws cs of [] \<Rightarrow> [[c]] | t # ts \<Rightarrow> (c # t) # ts))"
  by pat_completeness auto
termination
  by (relation "measure length") (auto simp: le_imp_less_Suc length_dropWhile_le)

definition toLowerCase :: "string \<Rightarrow> string" where
  "toLowerCase s =
     map (\<lambda>c. case map_of (zip ''ABCDEFGHIJKLMNOPQRSTUVWXYZ'' ''abcdefghijklmnopqrstuvwxyz'') c of
                 Some l \<Rightarrow> l | None \<Rightarrow> c) s"

definition toUpperCase :: "string \<Rightarrow> string" where
  "toUpperCase s =
     map (\<lambda>c. case map_of (zip ''abcdefghijklmnopqrstuvwxyz'' ''ABCDEFGHIJKLMNOPQRSTUVWXYZ'') c of
                 Some u \<Rightarrow> u | None \<Rightarrow> c) s"

definition trim :: "string \<Rightarrow> string" where
  "trim s = rev (dropWhile is_ws (rev (dropWhile is_ws s)))"

subsection \<open>The similarity of two translations\<close>

text \<open>
  \<^verbatim>\<open>calculateSimilarity\<close> (lines 503 to 515). A \<^verbatim>\<open>Set\<close> built from an array is the
  list of its distinct elements; only its \<^verbatim>\<open>size\<close> and \<^verbatim>\<open>has\<close> are used.
\<close>

definition calculateSimilarity :: "string \<Rightarrow> string \<Rightarrow> rat" where
  "calculateSimilarity text1 text2 =
     (let words1 = split_ws (toLowerCase text1);
          words2 = split_ws (toLowerCase text2);
          set1 = remdups words1;
          set2 = remdups words2;
          intersection = remdups (filter (\<lambda>x. x \<in> set set2) set1);
          union = remdups (set1 @ set2)
      in of_nat (length intersection) / of_nat (length union))"

text \<open>
  The specification's own wording of the score, for comparison with the code: the
  token sets of the lower-cased texts, the size of their intersection over the size of
  their union, and for two empty texts 1 if they are identical and 0 otherwise.
\<close>

definition token_set :: "string \<Rightarrow> string set" where
  "token_set t = set (split_ws (toLowerCase t))"


subsection \<open>Data\<close>

text \<open>
  The interfaces of the service. A field whose name is that of another record's field, of a
  HOL constant or of an Isar keyword carries a suffix: \<open>_s\<close> for a segment, \<open>_m\<close>
  for a merged translation, \<open>_v\<close> for a verification, \<open>_f\<close> for the controller's
  formatted translation. An optional field is an \<open>option\<close>.
\<close>

record TranslationContext =
  speaker :: "string option"
  tone :: "string option"
  domain :: "string option"
  description :: "string option"
  previousSegments :: "string list option"

record TranslationSegment =
  id_s :: int
  text_s :: string
  startTime :: rat
  endTime :: rat

record ResultMetadata =
  wordCount :: nat
  estimatedDuration :: "rat option"
  warnings :: "string list option"

record TranslationResult =
  translatedText :: string
  confidence :: rat
  model :: string
  metadata :: "ResultMetadata option"

record MergeMetadata =
  gpt4Result :: TranslationResult
  geminiResult :: TranslationResult
  mergeStrategy :: string

record MergedTranslation =
  text_m :: string
  confidence_m :: rat
  primaryModel :: string
  comparisonScore :: rat
  metadata_m :: MergeMetadata

record Verification =
  preferredTranslation :: string
  preferredModel :: string
  confidence_v :: rat

subsection \<open>The language tables and the duration estimate\<close>

definition languageMap :: "(string \<times> string) list" where
  "languageMap =
     [(''es'', ''Spanish''), (''zh'', ''Chinese (Mandarin)''), (''ru'', ''Russian''),
      (''bn'', ''Bengali''), (''ht'', ''Haitian Creole''), (''ko'', ''Korean''),
      (''ar'', ''Arabic''), (''ur'', ''Urdu''), (''fr'', ''French''), (''pl'', ''Polish'')]"

definition speechRates :: "(string \<times> nat) list" where
  "speechRates =
     [(''Spanish'', 180), (''Chinese'', 160), (''Russian'', 184), (''Bengali'', 170),
      (''Haitian Creole'', 175), (''Korean'', 170), (''Arabic'', 165), (''Urdu'', 170),
      (''French'', 195), (''Polish'', 190)]"

text \<open>\<^verbatim>\<open>estimateDuration\<close> (lines 520 to 539); no rate of the table is 0, so
  \<^verbatim>\<open>speechRates[language] || 175\<close> takes the default exactly when the key is absent.\<close>

definition estimateDuration :: "string \<Rightarrow> string \<Rightarrow> rat" where
  "estimateDuration text language =
     (let wordsPerMinute = (case map_of speechRates language of Some r \<Rightarrow> r | None \<Rightarrow> 175);
          wordCount' = length (split_ws text)
      in (of_nat wordCount' / of_nat wordsPerMinute) * 60)"

subsection \<open>The model backend\<close>

text \<open>
  The three requests the service sends with \<^verbatim>\<open>openai.chat.completions.create\<close>. The
  system prompt of a translation request is \<^verbatim>\<open>buildContextPrompt(context, targetLanguage)\<close>
  and its user message is built from the segment and the target language, so a request is
  given by the segment, the language name and the context; the verification request is
  given by the original text, the two candidates and the language name.

  A request either fails (the promise rejects, or the completion has no first choice and
  reading it throws inside the same \<^verbatim>\<open>try\<close>) or returns the content of the first
  choice's message, which may be \<^verbatim>\<open>null\<close>. The backend is any function of the number
  of requests sent before and of the request; the world is the log of the requests sent,
  each with its reply.
\<close>

datatype call =
    TranslateGPT4 TranslationSegment string TranslationContext
  | TranslateGPT4Turbo TranslationSegment string TranslationContext
  | VerifyChoice string string string string

datatype reply = Threw | Content "string option"

datatype error = CallFailed

type_synonym world = "(call \<times> reply) list"

type_synonym backend = "nat \<Rightarrow> call \<Rightarrow> reply"

definition create :: "backend \<Rightarrow> call \<Rightarrow> world \<Rightarrow> reply \<times> world" where
  "create be c w = (be (length w) c, w @ [(c, be (length w) c)])"

fun is_translate :: "call \<Rightarrow> bool" where
  "is_translate (TranslateGPT4 _ _ _) = True"
| "is_translate (TranslateGPT4Turbo _ _ _) = True"
| "is_translate (VerifyChoice _ _ _ _) = False"

subsection \<open>The two providers\<close>

text \<open>\<^verbatim>\<open>translateWithGPT4\<close> (lines 182 to 246): the error of a failed request is logged and
  thrown again; \<^verbatim>\<open>content?.trim() || ''\<close> is the empty string for a \<^verbatim>\<open>null\<close> content.\<close>

definition translateWithGPT4 ::
  "backend \<Rightarrow> TranslationSegment \<Rightarrow> string \<Rightarrow> TranslationContext \<Rightarrow> world
     \<Rightarrow> (error + TranslationResult) \<times> world" where
  "translateWithGPT4 be segment targetLanguage ctx w =
     (case create be (TranslateGPT4 segment targetLanguage ctx) w of
        (Threw, w') \<Rightarrow> (Inl CallFailed, w')
      | (Content content, w') \<Rightarrow>
          (let translated = (case content of None \<Rightarrow> [] | Some s \<Rightarrow> trim s)
           in (Inr \<lparr>translatedText = translated, confidence = 9 / 10, model = ''gpt-4'',
                     metadata = Some \<lparr>wordCount = length (split_ws translated),
                       estimatedDuration = Some (estimateDuration translated targetLanguage),
                       warnings = None\<rparr>\<rparr>, w')))"

text \<open>\<^verbatim>\<open>translateWithGPT4Turbo\<close> (lines 251 to 315).\<close>

definition translateWithGPT4Turbo ::
  "backend \<Rightarrow> TranslationSegment \<Rightarrow> string \<Rightarrow> TranslationContext \<Rightarrow> world
     \<Rightarrow> (error + TranslationResult) \<times> world" where
  "translateWithGPT4Turbo be segment targetLanguage ctx w =
     (case create be (TranslateGPT4Turbo segment targetLanguage ctx) w of
        (Threw, w') \<Rightarrow> (Inl CallFailed, w')
      | (Content content, w') \<Rightarrow>
          (let translated = (case content of None \<Rightarrow> [] | Some s \<Rightarrow> trim s)
           in (Inr \<lparr>translatedText = translated, confidence = 85 / 100, model = ''gpt-4-turbo'',
                     metadata = Some \<lparr>wordCount = length (split_ws translated),
                       estimatedDuration = Some (estimateDuration translated targetLanguage),
                       warnings = None\<rparr>\<rparr>, w')))"

subsection \<open>Verification and merge\<close>

text \<open>
  \<^verbatim>\<open>verifyTranslation\<close> (lines 418 to 498). \<^verbatim>\<open>choice\<close> is
  \<^verbatim>\<open>content?.trim().toUpperCase()\<close>, \<^verbatim>\<open>undefined\<close> for a \<^verbatim>\<open>null\<close> content; the
  \<^verbatim>\<open>catch\<close> returns a value, so the function never throws.
\<close>

definition verifyTranslation ::
  "backend \<Rightarrow> string \<Rightarrow> string \<Rightarrow> string \<Rightarrow> string \<Rightarrow> world \<Rightarrow> Verification \<times> world" where
  "verifyTranslation be originalText gpt4Translation gpt4TurboTranslation targetLanguage w =
     (case create be (VerifyChoice originalText gpt4Translation gpt4TurboTranslation targetLanguage) w of
        (Threw, w') \<Rightarrow>
          (\<lparr>preferredTranslation = gpt4Translation, preferredModel = ''gpt-4'',
            confidence_v = 75 / 100\<rparr>, w')
      | (Content content, w') \<Rightarrow>
          (let choice = map_option (\<lambda>s. toUpperCase (trim s)) content
           in if choice = Some ''A''
              then (\<lparr>preferredTranslation = gpt4Translation, preferredModel = ''gpt-4'',
                     confidence_v = 85 / 100\<rparr>, w')
              else (\<lparr>preferredTranslation = gpt4TurboTranslation, preferredModel = ''gpt-4-turbo'',
                     confidence_v = 85 / 100\<rparr>, w')))"

text \<open>\<^verbatim>\<open>mergeTranslations\<close> (lines 320 to 413).\<close>

definition mergeTranslations ::
  "backend \<Rightarrow> TranslationSegment \<Rightarrow> TranslationResult \<Rightarrow> TranslationResult \<Rightarrow> string \<Rightarrow> world
     \<Rightarrow> MergedTranslation \<times> world" where
  "mergeTranslations be segment gpt4 gpt4Turbo targetLanguage w =
     (let similarity = calculateSimilarity (translatedText gpt4) (translatedText gpt4Turbo)
      in if similarity > 9 / 10 then
           (\<lparr>text_m = translatedText gpt4, confidence_m = 95 / 100, primaryModel = ''gpt-4'',
             comparisonScore = similarity,
             metadata_m = \<lparr>gpt4Result = gpt4, geminiResult = gpt4Turbo,
                            mergeStrategy = ''high_agreement''\<rparr>\<rparr>, w)
         else if similarity > 7 / 10 then
           (case verifyTranslation be (text_s segment) (translatedText gpt4)
                   (translatedText gpt4Turbo) targetLanguage w of
              (verification, w') \<Rightarrow>
                (\<lparr>text_m = preferredTranslation verification,
                  confidence_m = confidence_v verification,
                  primaryModel = preferredModel verification,
                  comparisonScore = similarity,
                  metadata_m = \<lparr>gpt4Result = gpt4, geminiResult = gpt4Turbo,
                                 mergeStrategy = ''verified_selection''\<rparr>\<rparr>, w'))
         else
           (\<lparr>text_m = translatedText gpt4, confidence_m = 7 / 10, primaryModel = ''gpt-4'',
             comparisonScore = similarity,
             metadata_m = \<lparr>gpt4Result = gpt4, geminiResult = gpt4Turbo,
                            mergeStrategy = ''low_agreement_flagged''\<rparr>\<rparr>, w))"

subsection \<open>The orchestrator\<close>

text \<open>
  The body of the \<^verbatim>\<open>for\<close> loop of \<^verbatim>\<open>translateWithContext\<close> (lines 97 to 138) for
  one segment. Both provider requests of \<^verbatim>\<open>Promise.all\<close> are sent before either reply
  is read; when one of them fails the \<^verbatim>\<open>catch\<close> logs the error and throws it again.
  Which of two errors is thrown depends on which request fails first; the model has one
  error value.
\<close>

definition translate_segment ::
  "backend \<Rightarrow> string \<Rightarrow> TranslationContext \<Rightarrow> TranslationSegment \<Rightarrow> world
     \<Rightarrow> (error + MergedTranslation) \<times> world" where
  "translate_segment be targetLanguage ctx segment w =
     (case translateWithGPT4 be segment targetLanguage ctx w of
        (r1, w1) \<Rightarrow>
          (case translateWithGPT4Turbo be segment targetLanguage ctx w1 of
             (r2, w2) \<Rightarrow>
               (case (r1, r2) of
                  (Inr gpt4, Inr gpt4Turbo) \<Rightarrow>
                    (case mergeTranslations be segment gpt4 gpt4Turbo targetLanguage w2 of
                       (merged, w3) \<Rightarrow> (Inr merged, w3))
                | _ \<Rightarrow> (Inl CallFailed, w2))))"

text \<open>
  The loop itself (lines 96 to 139), with the array \<^verbatim>\<open>results\<close> as accumulator: an
  error thrown in the body ends the loop and the function, and \<^verbatim>\<open>results\<close> is lost.
\<close>

fun translate_loop ::
  "backend \<Rightarrow> string \<Rightarrow> TranslationContext \<Rightarrow> TranslationSegment list
     \<Rightarrow> MergedTranslation list \<Rightarrow> world \<Rightarrow> (error + MergedTranslation list) \<times> world" where
  "translate_loop be targetLanguage ctx [] results w = (Inr results, w)"
| "translate_loop be targetLanguage ctx (segment # rest) results w =
     (case translate_segment be targetLanguage ctx segment w of
        (Inl e, w') \<Rightarrow> (Inl e, w')
      | (Inr merged, w') \<Rightarrow>
          translate_loop be targetLanguage ctx rest (results @ [merged]) w')"

text \<open>\<^verbatim>\<open>translateWithContext\<close> (lines 71 to 150); a code that is not a key of the language
  map is used as the language name itself.\<close>

definition translateWithContext ::
  "backend \<Rightarrow> TranslationSegment list \<Rightarrow> string \<Rightarrow> TranslationContext \<Rightarrow> world
     \<Rightarrow> (error + MergedTranslation list) \<times> world" where
  "translateWithContext be segments targetLanguageCode ctx w =
     (let targetLanguage = (case map_of languageMap targetLanguageCode of
                              Some name \<Rightarrow> name | None \<Rightarrow> targetLanguageCode)
      in translate_loop be targetLanguage ctx segments [] w)"

text \<open>\<^verbatim>\<open>batchTranslate\<close> (lines 544 to 593): the loop over \<^verbatim>\<open>i\<close> in steps of
  \<^verbatim>\<open>batchSize = 5\<close>, with \<^verbatim>\<open>segments.slice(i, i + batchSize)\<close>.\<close>

function batch_loop ::
  "backend \<Rightarrow> TranslationSegment list \<Rightarrow> string \<Rightarrow> TranslationContext \<Rightarrow> nat
     \<Rightarrow> MergedTranslation list \<Rightarrow> world \<Rightarrow> (error + MergedTranslation list) \<times> world" where
  "batch_loop be segments targetLanguageCode ctx i results w =
     (if i < length segments then
        (case translateWithContext be (take 5 (drop i segments)) targetLanguageCode ctx w of
           (Inl e, w') \<Rightarrow> (Inl e, w')
         | (Inr batchResults, w') \<Rightarrow>
             batch_loop be segments targetLanguageCode ctx (i + 5) (results @ batchResults) w')
      else (Inr results, w))"
  by pat_completeness auto
termination
  by (relation "measure (\<lambda>(be, segments, code, ctx, i, results, w). length segments - i)") auto

definition batchTranslate ::
  "backend \<Rightarrow> TranslationSegment list \<Rightarrow> string \<Rightarrow> TranslationContext \<Rightarrow> world
     \<Rightarrow> (error + MergedTranslation list) \<times> world" where
  "batchTranslate be segments targetLanguageCode ctx w =
     batch_loop be segments targetLanguageCode ctx 0 [] w"

subsection \<open>The controller\<close>


record FormattedMetadata =
  gpt4_f :: string
  gemini_f :: string
  mergeStrategy_f :: string
  estimatedDuration_f :: "rat option"

record FormattedTranslation =
  id_f :: int
  originalText :: string
  translatedText_f :: string
  confidence_f :: rat
  primaryModel_f :: string
  comparisonScore_f :: rat
  qaStatus :: string
  metadata_f :: FormattedMetadata




subsection \<open>Reading the log\<close>

text \<open>
  What the log of a run says about the two providers: the segments for which a request
  was sent to each of them, in the order of sending, each with the reply; and the
  translation a provider function makes of a reply.
\<close>

fun gpt4_exchanges :: "world \<Rightarrow> (TranslationSegment \<times> reply) list" where
  "gpt4_exchanges [] = []"
| "gpt4_exchanges ((TranslateGPT4 segment _ _, r) # w) = (segment, r) # gpt4_exchanges w"
| "gpt4_exchanges (_ # w) = gpt4_exchanges w"

fun turbo_exchanges :: "world \<Rightarrow> (TranslationSegment \<times> reply) list" where
  "turbo_exchanges [] = []"
| "turbo_exchanges ((TranslateGPT4Turbo segment _ _, r) # w) = (segment, r) # turbo_exchanges w"
| "turbo_exchanges (_ # w) = turbo_exchanges w"

fun reply_text :: "reply \<Rightarrow> string" where
  "reply_text Threw = []"
| "reply_text (Content None) = []"
| "reply_text (Content (Some s)) = trim s"

subsection \<open>Example inputs\<close>

definition ctx0 :: TranslationContext where
  "ctx0 = \<lparr>speaker = None, tone = None, domain = None, description = None,
           previousSegments = None\<rparr>"

definition seg1 :: TranslationSegment where
  "seg1 = \<lparr>id_s = 1, text_s = ''Hello, citizens.'', startTime = 0, endTime = 2\<rparr>"

definition seg2 :: TranslationSegment where
  "seg2 = \<lparr>id_s = 2, text_s = ''Thank you.'', startTime = 2, endTime = 3\<rparr>"

definition seg3 :: TranslationSegment where
  "seg3 = \<lparr>id_s = 3, text_s = ''Good night.'', startTime = 3, endTime = 5\<rparr>"


text \<open>Two candidates of ten and nine words that share nine, and one of seven of them.\<close>

definition cand10 :: TranslationResult where
  "cand10 = \<lparr>translatedText = ''a b c d e f g h i j'', confidence = 9 / 10, model = ''gpt-4'',
             metadata = None\<rparr>"

definition cand9 :: TranslationResult where
  "cand9 = \<lparr>translatedText = ''a b c d e f g h i'', confidence = 85 / 100,
            model = ''gpt-4-turbo'', metadata = None\<rparr>"

definition cand7 :: TranslationResult where
  "cand7 = \<lparr>translatedText = ''a b c d e f g'', confidence = 85 / 100,
            model = ''gpt-4-turbo'', metadata = None\<rparr>"

text \<open>Six segments, more than one chunk of \<^verbatim>\<open>batchTranslate\<close>.\<close>

definition six_segments :: "TranslationSegment list" where
  "six_segments = [seg1, seg2, seg3, seg3, seg2, seg1]"




text \<open>Backends: one that answers every request with the same text, one whose every
  request fails, and one whose fourth request (the second provider's, for the second
  segment of a batch in full agreement) fails.\<close>

definition be_says :: "string \<Rightarrow> backend" where
  "be_says s n c = Content (Some s)"

definition be_throws :: backend where
  "be_throws n c = Threw"


section \<open>Properties\<close>

subsection \<open>Similarity\<close>

lemma split_ws_not_Nil: "split_ws s \<noteq> []"
  by (induction s rule: split_ws.induct) (auto split: list.splits)


lemma token_set_nonempty: "token_set t \<noteq> {}"
  by (simp add: token_set_def split_ws_not_Nil)



subsection \<open>The three regimes of the merge\<close>

lemma sim_10_9: "calculateSimilarity ''a b c d e f g h i j'' ''a b c d e f g h i'' = 9 / 10"
  by (simp add: calculateSimilarity_def toLowerCase_def is_ws_def)

lemma sim_10_7: "calculateSimilarity ''a b c d e f g h i j'' ''a b c d e f g'' = 7 / 10"
  by (simp add: calculateSimilarity_def toLowerCase_def is_ws_def)

lemma sim_10_10: "calculateSimilarity ''a b c d e f g h i j'' ''a b c d e f g h i j'' = 1"
  by (simp add: calculateSimilarity_def toLowerCase_def is_ws_def)

text \<open>
  Claim C1, as amended. For every similarity score \<open>s\<close> of the two candidates,
  \<^verbatim>\<open>mergeTranslations\<close> takes exactly one of three regimes, with both thresholds strict:
  \<open>s > 0.9\<close> is \<^verbatim>\<open>high_agreement\<close> (the first provider's text, primary model
  \<^verbatim>\<open>gpt-4\<close>, confidence 0.95), \<open>0.7 < s \<le> 0.9\<close> is \<^verbatim>\<open>verified_selection\<close>, and
  \<open>s \<le> 0.7\<close> is \<^verbatim>\<open>low_agreement_flagged\<close> (the first provider's text, confidence
  0.7). So \<open>s = 0.9\<close> is \<^verbatim>\<open>verified_selection\<close> and \<open>s = 0.7\<close> is
  \<^verbatim>\<open>low_agreement_flagged\<close>.
\<close>

theorem mergeTranslations_regimes:
  fixes gpt4 gpt4Turbo :: TranslationResult and be :: backend and segment :: TranslationSegment
    and targetLanguage :: string and w :: world
  defines "s \<equiv> calculateSimilarity (translatedText gpt4) (translatedText gpt4Turbo)"
  defines "m \<equiv> fst (mergeTranslations be segment gpt4 gpt4Turbo targetLanguage w)"
  shows "(s > 9 / 10 \<longrightarrow>
            mergeStrategy (metadata_m m) = ''high_agreement'' \<and> text_m m = translatedText gpt4
            \<and> primaryModel m = ''gpt-4'' \<and> confidence_m m = 95 / 100)
       \<and> (7 / 10 < s \<and> s \<le> 9 / 10 \<longrightarrow> mergeStrategy (metadata_m m) = ''verified_selection'')
       \<and> (s \<le> 7 / 10 \<longrightarrow>
            mergeStrategy (metadata_m m) = ''low_agreement_flagged''
            \<and> text_m m = translatedText gpt4 \<and> primaryModel m = ''gpt-4''
            \<and> confidence_m m = 7 / 10)"
  unfolding s_def m_def mergeTranslations_def Let_def
  by (simp split: prod.split)

text \<open>The three regimes at scores 1, 0.9 and 0.7.\<close>

theorem mergeTranslations_regimes_witness:
  "mergeStrategy (metadata_m (fst (mergeTranslations be_throws seg1 cand10 cand10 ''Spanish'' []))) = ''high_agreement''
   \<and> confidence_m (fst (mergeTranslations be_throws seg1 cand10 cand10 ''Spanish'' [])) = 95 / 100
   \<and> mergeStrategy (metadata_m (fst (mergeTranslations be_throws seg1 cand10 cand9 ''Spanish'' []))) = ''verified_selection''
   \<and> mergeStrategy (metadata_m (fst (mergeTranslations be_throws seg1 cand10 cand7 ''Spanish'' []))) = ''low_agreement_flagged''
   \<and> confidence_m (fst (mergeTranslations be_throws seg1 cand10 cand7 ''Spanish'' [])) = 7 / 10"
  using mergeTranslations_regimes [of cand10 cand10 be_throws seg1 "''Spanish''" "[]"]
        mergeTranslations_regimes [of cand10 cand9 be_throws seg1 "''Spanish''" "[]"]
        mergeTranslations_regimes [of cand10 cand7 be_throws seg1 "''Spanish''" "[]"]
  by (simp add: cand10_def cand9_def cand7_def sim_10_9 sim_10_7 sim_10_10)

text \<open>Against C1 as stated: at score exactly 0.9 the regime is not \<^verbatim>\<open>high_agreement\<close>
  and the confidence is not 0.95.\<close>

theorem boundary_090_counterexample:
  "calculateSimilarity (translatedText cand10) (translatedText cand9) = 9 / 10
   \<and> mergeStrategy (metadata_m (fst (mergeTranslations (be_says ''A'') seg1 cand10 cand9 ''Spanish'' [])))
       \<noteq> ''high_agreement''
   \<and> confidence_m (fst (mergeTranslations (be_says ''A'') seg1 cand10 cand9 ''Spanish'' [])) \<noteq> 95 / 100"
  by (simp add: mergeTranslations_def Let_def cand10_def cand9_def sim_10_9
        verifyTranslation_def create_def be_says_def trim_def toUpperCase_def is_ws_def)

subsection \<open>The outcomes of the verification\<close>

text \<open>
  Claim C2, as amended. In the \<^verbatim>\<open>verified_selection\<close> regime the merge never raises.
  If the verification request fails, the result is the first candidate's text with the
  label \<^verbatim>\<open>gpt-4\<close> and confidence 0.75. If it returns, the confidence is 0.85: a
  content that is \<^verbatim>\<open>A\<close> after trimming and upper-casing selects the first candidate,
  and every other content (\<^verbatim>\<open>B\<close>, any other text, or none) selects the second
  candidate's text with the label \<^verbatim>\<open>gpt-4-turbo\<close>.
\<close>

theorem arbiter_outcomes:
  fixes gpt4 gpt4Turbo :: TranslationResult and be :: backend and segment :: TranslationSegment
    and targetLanguage :: string and w :: world
  defines "s \<equiv> calculateSimilarity (translatedText gpt4) (translatedText gpt4Turbo)"
  defines "arbiter \<equiv> be (length w) (VerifyChoice (text_s segment) (translatedText gpt4)
                        (translatedText gpt4Turbo) targetLanguage)"
  defines "m \<equiv> fst (mergeTranslations be segment gpt4 gpt4Turbo targetLanguage w)"
  assumes "7 / 10 < s" and "s \<le> 9 / 10"
  shows "(arbiter = Threw \<longrightarrow>
            text_m m = translatedText gpt4 \<and> primaryModel m = ''gpt-4''
            \<and> confidence_m m = 75 / 100)
       \<and> (\<forall>content. arbiter = Content content
              \<and> map_option (\<lambda>c. toUpperCase (trim c)) content = Some ''A'' \<longrightarrow>
            text_m m = translatedText gpt4 \<and> primaryModel m = ''gpt-4''
            \<and> confidence_m m = 85 / 100)
       \<and> (\<forall>content. arbiter = Content content
              \<and> map_option (\<lambda>c. toUpperCase (trim c)) content \<noteq> Some ''A'' \<longrightarrow>
            text_m m = translatedText gpt4Turbo \<and> primaryModel m = ''gpt-4-turbo''
            \<and> confidence_m m = 85 / 100)"
  using assms(4,5) unfolding s_def m_def arbiter_def mergeTranslations_def Let_def
    verifyTranslation_def create_def
  by (simp split: prod.split reply.split)

text \<open>A failed request, the answer \<^verbatim>\<open>" a "\<close> and the answer \<^verbatim>\<open>"Neither"\<close>.\<close>

theorem arbiter_outcomes_witness:
  "text_m (fst (mergeTranslations be_throws seg1 cand10 cand9 ''Spanish'' [])) = translatedText cand10
   \<and> confidence_m (fst (mergeTranslations be_throws seg1 cand10 cand9 ''Spanish'' [])) = 75 / 100
   \<and> text_m (fst (mergeTranslations (be_says '' a '') seg1 cand10 cand9 ''Spanish'' [])) = translatedText cand10
   \<and> confidence_m (fst (mergeTranslations (be_says '' a '') seg1 cand10 cand9 ''Spanish'' [])) = 85 / 100
   \<and> text_m (fst (mergeTranslations (be_says ''Neither'') seg1 cand10 cand9 ''Spanish'' [])) = translatedText cand9
   \<and> primaryModel (fst (mergeTranslations (be_says ''Neither'') seg1 cand10 cand9 ''Spanish'' [])) = ''gpt-4-turbo''
   \<and> confidence_m (fst (mergeTranslations (be_says ''Neither'') seg1 cand10 cand9 ''Spanish'' [])) = 85 / 100"
  using arbiter_outcomes [of cand10 cand9 be_throws "[]" seg1 "''Spanish''"]
        arbiter_outcomes [of cand10 cand9 "be_says '' a ''" "[]" seg1 "''Spanish''"]
        arbiter_outcomes [of cand10 cand9 "be_says ''Neither''" "[]" seg1 "''Spanish''"]
  by (simp add: cand10_def cand9_def sim_10_9 be_throws_def be_says_def trim_def
        toUpperCase_def is_ws_def)

text \<open>Against C2 as stated: an answer that is neither \<^verbatim>\<open>A\<close> nor \<^verbatim>\<open>B\<close> gives the second
  candidate's text, and the confidence is not 0.75.\<close>

theorem arbiter_garbage_counterexample:
  "7 / 10 < calculateSimilarity (translatedText cand10) (translatedText cand9)
   \<and> calculateSimilarity (translatedText cand10) (translatedText cand9) \<le> 9 / 10
   \<and> be_says ''Neither'' 0 (VerifyChoice (text_s seg1) (translatedText cand10)
        (translatedText cand9) ''Spanish'') = Content (Some ''Neither'')
   \<and> text_m (fst (mergeTranslations (be_says ''Neither'') seg1 cand10 cand9 ''Spanish'' []))
        \<noteq> translatedText cand10
   \<and> confidence_m (fst (mergeTranslations (be_says ''Neither'') seg1 cand10 cand9 ''Spanish'' []))
        \<noteq> 75 / 100"
  by (simp add: mergeTranslations_def Let_def cand10_def cand9_def sim_10_9
        verifyTranslation_def create_def be_says_def trim_def toUpperCase_def is_ws_def)

subsection \<open>Confidence and regime\<close>

text \<open>
  Claim C3, as amended. Two executions of \<^verbatim>\<open>mergeTranslations\<close> whose similarity
  scores fall in the same regime have the same \<^verbatim>\<open>mergeStrategy\<close>; in the
  \<^verbatim>\<open>high_agreement\<close> regime both have confidence 0.95 and in the
  \<^verbatim>\<open>low_agreement_flagged\<close> regime both have confidence 0.7; in the
  \<^verbatim>\<open>verified_selection\<close> regime the confidence of each is 0.75 if its verification
  request fails and 0.85 if it returns, so there it depends on more than the score.
\<close>

theorem confidence_by_regime:
  fixes a1 b1 a2 b2 :: TranslationResult and be1 be2 :: backend
    and g1 g2 :: TranslationSegment and l1 l2 :: string and w1 w2 :: world
  defines "s1 \<equiv> calculateSimilarity (translatedText a1) (translatedText b1)"
  defines "s2 \<equiv> calculateSimilarity (translatedText a2) (translatedText b2)"
  defines "m1 \<equiv> fst (mergeTranslations be1 g1 a1 b1 l1 w1)"
  defines "m2 \<equiv> fst (mergeTranslations be2 g2 a2 b2 l2 w2)"
  defines "r1 \<equiv> be1 (length w1) (VerifyChoice (text_s g1) (translatedText a1) (translatedText b1) l1)"
  defines "r2 \<equiv> be2 (length w2) (VerifyChoice (text_s g2) (translatedText a2) (translatedText b2) l2)"
  assumes "(9 / 10 < s1 \<and> 9 / 10 < s2)
         \<or> (7 / 10 < s1 \<and> s1 \<le> 9 / 10 \<and> 7 / 10 < s2 \<and> s2 \<le> 9 / 10)
         \<or> (s1 \<le> 7 / 10 \<and> s2 \<le> 7 / 10)"
  shows "mergeStrategy (metadata_m m1) = mergeStrategy (metadata_m m2)
       \<and> (9 / 10 < s1 \<longrightarrow> confidence_m m1 = 95 / 100 \<and> confidence_m m2 = 95 / 100)
       \<and> (s1 \<le> 7 / 10 \<longrightarrow> confidence_m m1 = 7 / 10 \<and> confidence_m m2 = 7 / 10)
       \<and> (7 / 10 < s1 \<and> s1 \<le> 9 / 10 \<longrightarrow>
            confidence_m m1 = (if r1 = Threw then 75 / 100 else 85 / 100)
            \<and> confidence_m m2 = (if r2 = Threw then 75 / 100 else 85 / 100))"
  using assms(7) unfolding s1_def s2_def m1_def m2_def r1_def r2_def mergeTranslations_def Let_def
    verifyTranslation_def create_def
  by (auto split: prod.split reply.split)

text \<open>Two executions in the \<^verbatim>\<open>verified_selection\<close> regime, two in each other regime.\<close>

theorem confidence_by_regime_witness:
  "mergeStrategy (metadata_m (fst (mergeTranslations be_throws seg1 cand10 cand9 ''Spanish'' [])))
     = mergeStrategy (metadata_m (fst (mergeTranslations (be_says ''B'') seg2 cand10 cand9 ''French'' [])))
   \<and> confidence_m (fst (mergeTranslations be_throws seg1 cand10 cand9 ''Spanish'' [])) = 75 / 100
   \<and> confidence_m (fst (mergeTranslations (be_says ''B'') seg2 cand10 cand9 ''French'' [])) = 85 / 100
   \<and> confidence_m (fst (mergeTranslations be_throws seg1 cand10 cand10 ''Spanish'' [])) = 95 / 100
   \<and> confidence_m (fst (mergeTranslations be_throws seg1 cand10 cand7 ''Spanish'' [])) = 7 / 10"
  using confidence_by_regime [of cand10 cand9 cand10 cand9 be_throws seg1 "''Spanish''" "[]"
          "be_says ''B''" seg2 "''French''" "[]"]
        confidence_by_regime [of cand10 cand10 cand10 cand10 be_throws seg1 "''Spanish''" "[]"
          be_throws seg1 "''Spanish''" "[]"]
        confidence_by_regime [of cand10 cand7 cand10 cand7 be_throws seg1 "''Spanish''" "[]"
          be_throws seg1 "''Spanish''" "[]"]
  by (simp add: cand10_def cand9_def cand7_def sim_10_9 sim_10_7 sim_10_10 be_throws_def
        be_says_def)

text \<open>Against C3 as stated: the same candidates, so the same score and the same strategy,
  with different confidence.\<close>

theorem confidence_by_regime_counterexample:
  "comparisonScore (fst (mergeTranslations be_throws seg1 cand10 cand9 ''Spanish'' []))
     = comparisonScore (fst (mergeTranslations (be_says ''A'') seg1 cand10 cand9 ''Spanish'' []))
   \<and> mergeStrategy (metadata_m (fst (mergeTranslations be_throws seg1 cand10 cand9 ''Spanish'' [])))
     = mergeStrategy (metadata_m (fst (mergeTranslations (be_says ''A'') seg1 cand10 cand9 ''Spanish'' [])))
   \<and> confidence_m (fst (mergeTranslations be_throws seg1 cand10 cand9 ''Spanish'' []))
     \<noteq> confidence_m (fst (mergeTranslations (be_says ''A'') seg1 cand10 cand9 ''Spanish'' []))"
  by (simp add: mergeTranslations_def Let_def cand10_def cand9_def sim_10_9
        verifyTranslation_def create_def be_says_def be_throws_def trim_def toUpperCase_def
        is_ws_def)

subsection \<open>The text of a merged translation\<close>

text \<open>
  Claim C10. In every regime and for every reply or failure of the verification request,
  the text of the merged translation is the translated text of one of the two candidates,
  unchanged, and the primary model is the label of the provider whose text it is:
  \<^verbatim>\<open>gpt-4\<close> with the first candidate's text, \<^verbatim>\<open>gpt-4-turbo\<close> with the second's.
  The two candidates are kept in the metadata.
\<close>

theorem merged_text_is_candidate:
  fixes gpt4 gpt4Turbo :: TranslationResult and be :: backend and segment :: TranslationSegment
    and targetLanguage :: string and w :: world
  defines "m \<equiv> fst (mergeTranslations be segment gpt4 gpt4Turbo targetLanguage w)"
  shows "((text_m m = translatedText gpt4 \<and> primaryModel m = ''gpt-4'')
          \<or> (text_m m = translatedText gpt4Turbo \<and> primaryModel m = ''gpt-4-turbo''))
       \<and> gpt4Result (metadata_m m) = gpt4 \<and> geminiResult (metadata_m m) = gpt4Turbo"
  unfolding m_def mergeTranslations_def Let_def verifyTranslation_def create_def
  by (simp split: prod.split reply.split)

subsection \<open>The status of the quality review\<close>

text \<open>The merge gives one of four confidence values, none of them 0.9 or 0.8.\<close>

lemma mergeTranslations_confidence_values:
  "confidence_m (fst (mergeTranslations be segment a b lang w))
     \<in> {95 / 100, 85 / 100, 75 / 100, 7 / 10}"
  by (simp add: mergeTranslations_def verifyTranslation_def create_def Let_def
      split: prod.split reply.split)



subsection \<open>The duration estimate\<close>

text \<open>
  Claim C9. The language map gives the code \<^verbatim>\<open>zh\<close> the name
  \<^verbatim>\<open>Chinese (Mandarin)\<close>, while the table of speech rates has its rate of 160 under the
  key \<^verbatim>\<open>Chinese\<close>: for that name \<^verbatim>\<open>estimateDuration\<close> takes the default rate of 175,
  and the two words of \<^verbatim>\<open>ni hao\<close> are estimated at 2 / 175 minutes instead of 2 / 160.
  The nine other names of the language map are keys of the table.
\<close>

theorem estimateDuration_Chinese_Mandarin:
  "map_of languageMap ''zh'' = Some ''Chinese (Mandarin)''
   \<and> map_of speechRates ''Chinese'' = Some 160
   \<and> map_of speechRates ''Chinese (Mandarin)'' = None
   \<and> estimateDuration ''ni hao'' ''Chinese (Mandarin)'' = (2 / 175) * 60
   \<and> estimateDuration ''ni hao'' ''Chinese (Mandarin)'' \<noteq> (2 / 160) * 60
   \<and> map (\<lambda>(code, name). map_of speechRates name) languageMap
       = [Some 180, None, Some 184, Some 170, Some 175, Some 170, Some 165, Some 170,
          Some 195, Some 190]"
  by (simp add: languageMap_def estimateDuration_def speechRates_def is_ws_def)

subsection \<open>The log of a run\<close>

lemma gpt4_exchanges_append: "gpt4_exchanges (u @ v) = gpt4_exchanges u @ gpt4_exchanges v"
  by (induction u rule: gpt4_exchanges.induct) simp_all

lemma turbo_exchanges_append: "turbo_exchanges (u @ v) = turbo_exchanges u @ turbo_exchanges v"
  by (induction u rule: turbo_exchanges.induct) simp_all

lemma translateWithGPT4_log:
  "snd (translateWithGPT4 be segment lang ctx w)
     = w @ [(TranslateGPT4 segment lang ctx, be (length w) (TranslateGPT4 segment lang ctx))]"
  by (simp add: translateWithGPT4_def create_def Let_def split: reply.split)

lemma translateWithGPT4_result:
  "fst (translateWithGPT4 be segment lang ctx w) =
     (case be (length w) (TranslateGPT4 segment lang ctx) of
        Threw \<Rightarrow> Inl CallFailed
      | Content c \<Rightarrow> Inr \<lparr>translatedText = reply_text (Content c), confidence = 9 / 10,
           model = ''gpt-4'',
           metadata = Some \<lparr>wordCount = length (split_ws (reply_text (Content c))),
             estimatedDuration = Some (estimateDuration (reply_text (Content c)) lang),
             warnings = None\<rparr>\<rparr>)"
  by (simp add: translateWithGPT4_def create_def Let_def split: reply.split option.split)

lemma translateWithGPT4Turbo_log:
  "snd (translateWithGPT4Turbo be segment lang ctx w)
     = w @ [(TranslateGPT4Turbo segment lang ctx, be (length w) (TranslateGPT4Turbo segment lang ctx))]"
  by (simp add: translateWithGPT4Turbo_def create_def Let_def split: reply.split)

lemma translateWithGPT4Turbo_result:
  "fst (translateWithGPT4Turbo be segment lang ctx w) =
     (case be (length w) (TranslateGPT4Turbo segment lang ctx) of
        Threw \<Rightarrow> Inl CallFailed
      | Content c \<Rightarrow> Inr \<lparr>translatedText = reply_text (Content c), confidence = 85 / 100,
           model = ''gpt-4-turbo'',
           metadata = Some \<lparr>wordCount = length (split_ws (reply_text (Content c))),
             estimatedDuration = Some (estimateDuration (reply_text (Content c)) lang),
             warnings = None\<rparr>\<rparr>)"
  by (simp add: translateWithGPT4Turbo_def create_def Let_def split: reply.split option.split)

lemma mergeTranslations_log:
  "\<exists>v. snd (mergeTranslations be segment a b lang w) = w @ v
       \<and> gpt4_exchanges v = [] \<and> turbo_exchanges v = []
       \<and> (\<forall>c r. (c, r) \<in> set v \<longrightarrow> \<not> is_translate c)"
  by (simp add: mergeTranslations_def verifyTranslation_def create_def Let_def
      split: prod.split reply.split)

lemma mergeTranslations_candidates:
  "gpt4Result (metadata_m (fst (mergeTranslations be segment a b lang w))) = a
   \<and> geminiResult (metadata_m (fst (mergeTranslations be segment a b lang w))) = b"
  by (simp add: mergeTranslations_def verifyTranslation_def create_def Let_def
      split: prod.split reply.split)

lemma translate_segment_unfold:
  "translate_segment be lang ctx segment w =
     (case (fst (translateWithGPT4 be segment lang ctx w),
            fst (translateWithGPT4Turbo be segment lang ctx (snd (translateWithGPT4 be segment lang ctx w)))) of
        (Inr a, Inr b) \<Rightarrow>
          (Inr (fst (mergeTranslations be segment a b lang
                  (snd (translateWithGPT4Turbo be segment lang ctx (snd (translateWithGPT4 be segment lang ctx w)))))),
           snd (mergeTranslations be segment a b lang
                  (snd (translateWithGPT4Turbo be segment lang ctx (snd (translateWithGPT4 be segment lang ctx w))))))
      | _ \<Rightarrow> (Inl CallFailed,
               snd (translateWithGPT4Turbo be segment lang ctx (snd (translateWithGPT4 be segment lang ctx w)))))"
  unfolding translate_segment_def
  by (simp only: split_beta prod.case)

lemma translate_segment_log:
  assumes "translate_segment be lang ctx segment w = (r, w')"
  shows "\<exists>new r1 r2. w' = w @ new \<and> 2 \<le> length new
       \<and> gpt4_exchanges new = [(segment, r1)] \<and> turbo_exchanges new = [(segment, r2)]
       \<and> ((\<exists>c. is_translate c \<and> (c, Threw) \<in> set new) \<longleftrightarrow> r = Inl CallFailed)
       \<and> (\<forall>m. r = Inr m \<longrightarrow>
            translatedText (gpt4Result (metadata_m m)) = reply_text r1
            \<and> translatedText (geminiResult (metadata_m m)) = reply_text r2)"
proof -
  define c1 where "c1 = TranslateGPT4 segment lang ctx"
  define c2 where "c2 = TranslateGPT4Turbo segment lang ctx"
  define r1 where "r1 = be (length w) c1"
  define w1 where "w1 = w @ [(c1, r1)]"
  define r2 where "r2 = be (length w1) c2"
  define w2 where "w2 = w1 @ [(c2, r2)]"
  have A: "snd (translateWithGPT4 be segment lang ctx w) = w1"
    by (simp add: translateWithGPT4_log w1_def r1_def c1_def)
  have B: "snd (translateWithGPT4Turbo be segment lang ctx w1) = w2"
    by (simp add: translateWithGPT4Turbo_log w2_def r2_def c2_def)
  have RA: "fst (translateWithGPT4 be segment lang ctx w) =
     (case r1 of Threw \<Rightarrow> Inl CallFailed
      | Content c \<Rightarrow> Inr \<lparr>translatedText = reply_text (Content c), confidence = 9 / 10,
           model = ''gpt-4'',
           metadata = Some \<lparr>wordCount = length (split_ws (reply_text (Content c))),
             estimatedDuration = Some (estimateDuration (reply_text (Content c)) lang),
             warnings = None\<rparr>\<rparr>)"
    unfolding r1_def c1_def by (rule translateWithGPT4_result)
  have RB: "fst (translateWithGPT4Turbo be segment lang ctx w1) =
     (case r2 of Threw \<Rightarrow> Inl CallFailed
      | Content c \<Rightarrow> Inr \<lparr>translatedText = reply_text (Content c), confidence = 85 / 100,
           model = ''gpt-4-turbo'',
           metadata = Some \<lparr>wordCount = length (split_ws (reply_text (Content c))),
             estimatedDuration = Some (estimateDuration (reply_text (Content c)) lang),
             warnings = None\<rparr>\<rparr>)"
    unfolding r2_def c2_def by (rule translateWithGPT4Turbo_result)
  have ex2: "gpt4_exchanges [(c1, r1), (c2, r2)] = [(segment, r1)]"
    "turbo_exchanges [(c1, r1), (c2, r2)] = [(segment, r2)]"
    by (simp_all add: c1_def c2_def)
  have w2: "w2 = w @ [(c1, r1), (c2, r2)]"
    by (simp add: w2_def w1_def)
  have tr: "is_translate c1" "is_translate c2"
    by (simp_all add: c1_def c2_def)
  note U = translate_segment_unfold [of be lang ctx segment w, unfolded A B]
  show ?thesis
  proof (cases "r1 = Threw \<or> r2 = Threw")
    case True
    have "translate_segment be lang ctx segment w = (Inl CallFailed, w2)"
      using True unfolding U RA RB by (auto split: reply.split)
    with assms have fail: "r = Inl CallFailed" "w' = w2"
      by simp_all
    from tr True have "\<exists>c. is_translate c \<and> (c, Threw) \<in> set [(c1, r1), (c2, r2)]"
      by auto
    with fail ex2 show ?thesis
      by - (rule exI [of _ "[(c1, r1), (c2, r2)]"], rule exI [of _ r1], rule exI [of _ r2],
          simp add: w2)
  next
    case False
    then obtain k1 k2 where k: "r1 = Content k1" "r2 = Content k2"
      by (cases r1; cases r2) auto
    obtain a where a: "fst (translateWithGPT4 be segment lang ctx w) = Inr a"
      "translatedText a = reply_text r1"
      unfolding RA k by simp
    obtain b where b: "fst (translateWithGPT4Turbo be segment lang ctx w1) = Inr b"
      "translatedText b = reply_text r2"
      unfolding RB k by simp
    obtain v where v: "snd (mergeTranslations be segment a b lang w2) = w2 @ v"
      "gpt4_exchanges v = []" "turbo_exchanges v = []"
      "\<forall>c r. (c, r) \<in> set v \<longrightarrow> \<not> is_translate c"
      using mergeTranslations_log [of be segment a b lang w2] by blast
    have "translate_segment be lang ctx segment w
            = (Inr (fst (mergeTranslations be segment a b lang w2)), w2 @ v)"
      unfolding U a(1) b(1) by (simp add: v(1))
    with assms have res: "r = Inr (fst (mergeTranslations be segment a b lang w2))" "w' = w2 @ v"
      by simp_all
    have nofail: "\<not> (\<exists>c. is_translate c \<and> (c, Threw) \<in> set ([(c1, r1), (c2, r2)] @ v))"
      using k v(4) by auto
    have len: "2 \<le> length ([(c1, r1), (c2, r2)] @ v)"
      by simp
    have g: "gpt4_exchanges ([(c1, r1), (c2, r2)] @ v) = [(segment, r1)]"
      "turbo_exchanges ([(c1, r1), (c2, r2)] @ v) = [(segment, r2)]"
      unfolding gpt4_exchanges_append turbo_exchanges_append ex2 v(2,3) by simp_all
    have w': "w' = w @ ([(c1, r1), (c2, r2)] @ v)"
      unfolding res(2) w2 by simp
    have m: "translatedText (gpt4Result (metadata_m (fst (mergeTranslations be segment a b lang w2)))) = reply_text r1"
      "translatedText (geminiResult (metadata_m (fst (mergeTranslations be segment a b lang w2)))) = reply_text r2"
      using mergeTranslations_candidates [of be segment a b lang w2] a(2) b(2) by simp_all
    show ?thesis
      using w' len g nofail m unfolding res(1)
      by - (rule exI [of _ "[(c1, r1), (c2, r2)] @ v"], rule exI [of _ r1], rule exI [of _ r2],
          simp del: append.simps)
  qed
qed


lemma translate_loop_log:
  assumes "translate_loop be lang ctx segs results w = (r, w')"
  shows "\<exists>new. w' = w @ new \<and> (segs \<noteq> [] \<longrightarrow> 2 \<le> length new)
       \<and> ((\<exists>c. is_translate c \<and> (c, Threw) \<in> set new) \<longleftrightarrow> r = Inl CallFailed)
       \<and> (\<forall>rs. r = Inr rs \<longrightarrow>
            (\<exists>ms. rs = results @ ms \<and> length ms = length segs
               \<and> map fst (gpt4_exchanges new) = segs
               \<and> map fst (turbo_exchanges new) = segs
               \<and> map (\<lambda>m. translatedText (gpt4Result (metadata_m m))) ms
                   = map (\<lambda>x. reply_text (snd x)) (gpt4_exchanges new)
               \<and> map (\<lambda>m. translatedText (geminiResult (metadata_m m))) ms
                   = map (\<lambda>x. reply_text (snd x)) (turbo_exchanges new)))"
  using assms
proof (induction segs arbitrary: results w)
  case Nil
  then have "r = Inr results" "w' = w" by simp_all
  then show ?case by (intro exI [of _ "[]"]) simp
next
  case (Cons segment rest)
  obtain r0 w0 where step: "translate_segment be lang ctx segment w = (r0, w0)"
    by (cases "translate_segment be lang ctx segment w")
  from translate_segment_log [OF step]
  obtain new1 r1 r2 where n1: "w0 = w @ new1" "2 \<le> length new1"
    "gpt4_exchanges new1 = [(segment, r1)]" "turbo_exchanges new1 = [(segment, r2)]"
    "(\<exists>c. is_translate c \<and> (c, Threw) \<in> set new1) \<longleftrightarrow> r0 = Inl CallFailed"
    "\<forall>m. r0 = Inr m \<longrightarrow>
        translatedText (gpt4Result (metadata_m m)) = reply_text r1
        \<and> translatedText (geminiResult (metadata_m m)) = reply_text r2"
    by blast
  show ?case
  proof (cases r0)
    case (Inl e)
    have e: "e = CallFailed" by (cases e) simp
    from Cons.prems step Inl have "r = Inl CallFailed" "w' = w0"
      by (simp_all add: e)
    with n1 Inl e show ?thesis
      by (intro exI [of _ new1]) simp
  next
    case (Inr m)
    from Cons.prems step Inr
    have rec: "translate_loop be lang ctx rest (results @ [m]) w0 = (r, w')"
      by simp
    from Cons.IH [OF rec]
    obtain new2 where n2: "w' = w0 @ new2"
      "(\<exists>c. is_translate c \<and> (c, Threw) \<in> set new2) \<longleftrightarrow> r = Inl CallFailed"
      "\<forall>rs. r = Inr rs \<longrightarrow>
         (\<exists>ms. rs = (results @ [m]) @ ms \<and> length ms = length rest
            \<and> map fst (gpt4_exchanges new2) = rest
            \<and> map fst (turbo_exchanges new2) = rest
            \<and> map (\<lambda>m. translatedText (gpt4Result (metadata_m m))) ms
                = map (\<lambda>x. reply_text (snd x)) (gpt4_exchanges new2)
            \<and> map (\<lambda>m. translatedText (geminiResult (metadata_m m))) ms
                = map (\<lambda>x. reply_text (snd x)) (turbo_exchanges new2))"
      by blast
    have nf1: "\<not> (\<exists>c. is_translate c \<and> (c, Threw) \<in> set new1)"
      using n1(5) Inr by simp
    have a: "w' = w @ (new1 @ new2)"
      by (simp add: n1(1) n2(1))
    have b: "2 \<le> length (new1 @ new2)"
      using n1(2) by simp
    have c: "(\<exists>c. is_translate c \<and> (c, Threw) \<in> set (new1 @ new2)) \<longleftrightarrow> r = Inl CallFailed"
      using nf1 n2(2) by auto
    have d: "\<exists>ms. rs = results @ ms \<and> length ms = length (segment # rest)
               \<and> map fst (gpt4_exchanges (new1 @ new2)) = segment # rest
               \<and> map fst (turbo_exchanges (new1 @ new2)) = segment # rest
               \<and> map (\<lambda>m. translatedText (gpt4Result (metadata_m m))) ms
                   = map (\<lambda>x. reply_text (snd x)) (gpt4_exchanges (new1 @ new2))
               \<and> map (\<lambda>m. translatedText (geminiResult (metadata_m m))) ms
                   = map (\<lambda>x. reply_text (snd x)) (turbo_exchanges (new1 @ new2))"
      if "r = Inr rs" for rs
    proof -
      from n2(3) that obtain ms where ms: "rs = (results @ [m]) @ ms" "length ms = length rest"
        "map fst (gpt4_exchanges new2) = rest" "map fst (turbo_exchanges new2) = rest"
        "map (\<lambda>m. translatedText (gpt4Result (metadata_m m))) ms
           = map (\<lambda>x. reply_text (snd x)) (gpt4_exchanges new2)"
        "map (\<lambda>m. translatedText (geminiResult (metadata_m m))) ms
           = map (\<lambda>x. reply_text (snd x)) (turbo_exchanges new2)"
        by blast
      from n1(6) Inr have m: "translatedText (gpt4Result (metadata_m m)) = reply_text r1"
        "translatedText (geminiResult (metadata_m m)) = reply_text r2"
        by simp_all
      show ?thesis
        by (rule exI [of _ "m # ms"])
           (simp add: ms m gpt4_exchanges_append turbo_exchanges_append n1(3,4))
    qed
    show ?thesis
      using a b c d by (intro exI [of _ "new1 @ new2"]) blast
  qed
qed

lemma translate_loop_results:
  "translate_loop be lang ctx segs results w =
     (case translate_loop be lang ctx segs [] w of
        (Inl e, w') \<Rightarrow> (Inl e, w')
      | (Inr rs, w') \<Rightarrow> (Inr (results @ rs), w'))"
proof (induction segs arbitrary: results w)
  case Nil
  show ?case by simp
next
  case (Cons segment rest)
  show ?case
  proof (cases "translate_segment be lang ctx segment w")
    case (Pair r0 w0)
    show ?thesis
    proof (cases r0)
      case (Inl e)
      with Pair show ?thesis by simp
    next
      case (Inr m)
      show ?thesis
        using Pair Inr Cons.IH [of "results @ [m]" w0] Cons.IH [of "[m]" w0]
        by (simp split: prod.split sum.split)
    qed
  qed
qed

lemma translate_loop_append:
  "translate_loop be lang ctx (xs @ ys) results w =
     (case translate_loop be lang ctx xs results w of
        (Inl e, w') \<Rightarrow> (Inl e, w')
      | (Inr rs, w') \<Rightarrow> translate_loop be lang ctx ys rs w')"
proof (induction xs arbitrary: results w)
  case Nil
  show ?case by simp
next
  case (Cons segment rest)
  show ?case
    by (cases "translate_segment be lang ctx segment w")
       (simp add: Cons.IH split: sum.split)
qed

lemma batch_loop_eq:
  "batch_loop be segments code ctx i results w =
     (case translateWithContext be (drop i segments) code ctx w of
        (Inl e, w') \<Rightarrow> (Inl e, w')
      | (Inr rs, w') \<Rightarrow> (Inr (results @ rs), w'))"
proof (induction be segments code ctx i results w rule: batch_loop.induct)
  case (1 be segments code ctx i results w)
  show ?case
  proof (cases "i < length segments")
    case False
    then show ?thesis
      by (subst batch_loop.simps) (simp add: translateWithContext_def)
  next
    case True
    define lang where "lang = (case map_of languageMap code of Some name \<Rightarrow> name | None \<Rightarrow> code)"
    have "drop (i + 5) segments = drop 5 (drop i segments)"
      by (simp add: add.commute)
    then have dr: "drop i segments = take 5 (drop i segments) @ drop (i + 5) segments"
      by (simp only: append_take_drop_id)
    obtain r0 w0 where first: "translate_loop be lang ctx (take 5 (drop i segments)) [] w = (r0, w0)"
      by (cases "translate_loop be lang ctx (take 5 (drop i segments)) [] w")
    have whole: "translateWithContext be (drop i segments) code ctx w =
        (case r0 of Inl e \<Rightarrow> (Inl e, w0)
         | Inr rs \<Rightarrow> translate_loop be lang ctx (drop (i + 5) segments) rs w0)"
      unfolding translateWithContext_def Let_def lang_def [symmetric]
      by (subst dr, subst translate_loop_append) (simp add: first)
    show ?thesis
    proof (cases r0)
      case (Inl e)
      with True first whole show ?thesis
        by (subst batch_loop.simps)
           (simp add: translateWithContext_def Let_def lang_def [symmetric])
    next
      case (Inr rs)
      have chunk: "translateWithContext be (take 5 (drop i segments)) code ctx w = (Inr rs, w0)"
        using first Inr by (simp add: translateWithContext_def Let_def lang_def [symmetric])
      have tl: "translate_loop be lang ctx (drop (i + 5) segments) rs w0 =
          (case translateWithContext be (drop (i + 5) segments) code ctx w0 of
             (Inl e, w') \<Rightarrow> (Inl e, w')
           | (Inr rs', w') \<Rightarrow> (Inr (rs @ rs'), w'))"
        unfolding translateWithContext_def Let_def lang_def [symmetric]
        by (rule translate_loop_results)
      have "batch_loop be segments code ctx i results w
              = batch_loop be segments code ctx (i + 5) (results @ rs) w0"
        using True chunk by (subst batch_loop.simps) simp
      also have "\<dots> = (case translateWithContext be (drop (i + 5) segments) code ctx w0 of
                          (Inl e, w') \<Rightarrow> (Inl e, w')
                        | (Inr rs', w') \<Rightarrow> (Inr ((results @ rs) @ rs'), w'))"
        using "1.IH" [OF True chunk [symmetric] refl] by simp
      also have "\<dots> = (case translateWithContext be (drop i segments) code ctx w of
                          (Inl e, w') \<Rightarrow> (Inl e, w')
                        | (Inr rs, w') \<Rightarrow> (Inr (results @ rs), w'))"
        unfolding whole Inr sum.case tl
        by (simp split: prod.split sum.split)
      finally show ?thesis .
    qed
  qed
qed

lemma batchTranslate_eq:
  "batchTranslate be segments code ctx w = translateWithContext be segments code ctx w"
  unfolding batchTranslate_def batch_loop_eq
  by (simp split: prod.split sum.split)

subsection \<open>Runs on the example inputs\<close>

lemmas run_defs = translateWithContext_def languageMap_def translate_segment_def
  translateWithGPT4_def translateWithGPT4Turbo_def create_def trim_def is_ws_def
  mergeTranslations_def calculateSimilarity_def toLowerCase_def Let_def

lemma six_run:
  "\<exists>results w'. translateWithContext (be_says ''Hola.'') six_segments ''es'' ctx0 [] = (Inr results, w')"
  by (simp add: run_defs six_segments_def be_says_def)



subsection \<open>Order of the results\<close>

text \<open>
  Claim C7. When \<^verbatim>\<open>translateWithContext\<close> or \<^verbatim>\<open>batchTranslate\<close> succeeds on a list
  of N segments, it returns N merged translations in the order of the input: each
  provider received one request per segment, in input order, and the i-th result carries
  the two translations made of the replies to the requests for the i-th segment.
\<close>

theorem order_preserved:
  assumes "f = translateWithContext \<or> f = batchTranslate"
    and "f be segments code ctx w = (Inr results, w')"
  shows "length results = length segments
       \<and> map fst (gpt4_exchanges (drop (length w) w')) = segments
       \<and> map fst (turbo_exchanges (drop (length w) w')) = segments
       \<and> map (\<lambda>m. translatedText (gpt4Result (metadata_m m))) results
           = map (\<lambda>x. reply_text (snd x)) (gpt4_exchanges (drop (length w) w'))
       \<and> map (\<lambda>m. translatedText (geminiResult (metadata_m m))) results
           = map (\<lambda>x. reply_text (snd x)) (turbo_exchanges (drop (length w) w'))"
proof -
  from assms have "translateWithContext be segments code ctx w = (Inr results, w')"
    by (auto simp: batchTranslate_eq)
  then obtain lang where "translate_loop be lang ctx segments [] w = (Inr results, w')"
    by (simp add: translateWithContext_def)
  from translate_loop_log [OF this] show ?thesis
    by auto
qed

text \<open>Six segments, translated by \<^verbatim>\<open>batchTranslate\<close> in chunks of five and one.\<close>

theorem order_preserved_witness:
  "length (projr (fst (batchTranslate (be_says ''Hola.'') six_segments ''es'' ctx0 []))) = 6
   \<and> map fst (gpt4_exchanges (snd (batchTranslate (be_says ''Hola.'') six_segments ''es'' ctx0 [])))
       = six_segments
   \<and> map fst (turbo_exchanges (snd (batchTranslate (be_says ''Hola.'') six_segments ''es'' ctx0 [])))
       = six_segments"
proof -
  obtain results w'
    where run: "batchTranslate (be_says ''Hola.'') six_segments ''es'' ctx0 [] = (Inr results, w')"
    using six_run by (auto simp: batchTranslate_eq)
  then have A: "fst (batchTranslate (be_says ''Hola.'') six_segments ''es'' ctx0 []) = Inr results"
    "snd (batchTranslate (be_says ''Hola.'') six_segments ''es'' ctx0 []) = w'"
    by simp_all
  have "batchTranslate = translateWithContext \<or> batchTranslate = batchTranslate"
    by simp
  from order_preserved [OF this run]
  show ?thesis
    unfolding A by (simp add: six_segments_def)
qed

subsection \<open>A failed provider request\<close>



subsection \<open>Rejection of a request\<close>




end
